theory Spec2Isabelle
  imports Complex_Main
begin

section \<open>Data model\<close>

text \<open>
  The application is a TypeScript/React program. Its numbers are IEEE doubles (and 32-bit
  floats inside the vertex shaders). They are modelled as mathematical reals; where a
  property depends on rounding, namely for the positions three.js interpolates, every
  operation is rounded to a double explicitly (\<open>double\<close> below). \<open>Date.now()\<close> yields
  whole milliseconds and is an \<open>int\<close>. Calls to \<open>Math.random()\<close>, \<open>Date.now()\<close>, \<open>uuidv4()\<close> and
  \<open>URL.createObjectURL\<close> are inputs of the functions that make them. Handlers run one
  after the other, each on the state the previous one left.
\<close>

text \<open>\<open>types.ts\<close>: \<open>enum AppMode\<close>.\<close>

datatype AppMode = TREE | SCATTER | FOCUS | NEW_YEAR

text \<open>\<open>types.ts\<close>: the union type of \<open>GestureState.gesture\<close>.\<close>

datatype Gesture = FIST | OPEN_PALM | PINCH | YEAH | NONE

text \<open>
  \<open>types.ts\<close>: \<open>interface GestureState\<close>. The fields \<open>x\<close> and \<open>y\<close> are named
  \<open>gx\<close> and \<open>gy\<close>.
\<close>

record GestureState =
  gx :: real
  gy :: real
  handSize :: real
  isDetected :: bool
  gesture :: Gesture

text \<open>A hand landmark as the landmarker reports it: normalised image coordinates.\<close>

datatype landmark = Landmark (lm_x: real) (lm_y: real) (lm_z: real)

section \<open>Landmark normalizer and gesture classifier (\<open>predictWebcam\<close>)\<close>

text \<open>\<open>Math.hypot\<close> of two arguments.\<close>

definition hypot :: "real \<Rightarrow> real \<Rightarrow> real" where
  "hypot a b = sqrt (a\<^sup>2 + b\<^sup>2)"

text \<open>
  The local constants of \<open>predictWebcam\<close>: \<open>wrist\<close> is landmark 0, \<open>middleMCP\<close> 9,
  \<open>thumbTip\<close> 4, \<open>indexTip\<close> 8, \<open>middleTip\<close> 12, \<open>ringTip\<close> 16, \<open>pinkyTip\<close> 20.
  They are read only under the guard \<open>landmarks.length >= 21\<close>.
\<close>

definition wrist :: "landmark list \<Rightarrow> landmark" where
  "wrist landmarks = landmarks ! 0"

definition middleMCP :: "landmark list \<Rightarrow> landmark" where
  "middleMCP landmarks = landmarks ! 9"

definition thumbTip :: "landmark list \<Rightarrow> landmark" where
  "thumbTip landmarks = landmarks ! 4"

definition indexTip :: "landmark list \<Rightarrow> landmark" where
  "indexTip landmarks = landmarks ! 8"

definition middleTip :: "landmark list \<Rightarrow> landmark" where
  "middleTip landmarks = landmarks ! 12"

definition ringTip :: "landmark list \<Rightarrow> landmark" where
  "ringTip landmarks = landmarks ! 16"

definition pinkyTip :: "landmark list \<Rightarrow> landmark" where
  "pinkyTip landmarks = landmarks ! 20"

definition pinchDist :: "landmark list \<Rightarrow> real" where
  "pinchDist ls = hypot (lm_x (indexTip ls) - lm_x (thumbTip ls))
                        (lm_y (indexTip ls) - lm_y (thumbTip ls))"

definition distIndex :: "landmark list \<Rightarrow> real" where
  "distIndex ls = hypot (lm_x (indexTip ls) - lm_x (wrist ls))
                        (lm_y (indexTip ls) - lm_y (wrist ls))"

definition distMiddle :: "landmark list \<Rightarrow> real" where
  "distMiddle ls = hypot (lm_x (middleTip ls) - lm_x (wrist ls))
                         (lm_y (middleTip ls) - lm_y (wrist ls))"

definition distRing :: "landmark list \<Rightarrow> real" where
  "distRing ls = hypot (lm_x (ringTip ls) - lm_x (wrist ls))
                       (lm_y (ringTip ls) - lm_y (wrist ls))"

definition distPinky :: "landmark list \<Rightarrow> real" where
  "distPinky ls = hypot (lm_x (pinkyTip ls) - lm_x (wrist ls))
                        (lm_y (pinkyTip ls) - lm_y (wrist ls))"

definition avgFingerDist :: "landmark list \<Rightarrow> real" where
  "avgFingerDist ls = (distIndex ls + distMiddle ls + distRing ls + distPinky ls) / 4"

text \<open>The \<open>if\<close>/\<open>else if\<close> chain of \<open>predictWebcam\<close>; \<open>gesture\<close> starts as \<open>NONE\<close>.\<close>

definition classifyGesture :: "landmark list \<Rightarrow> Gesture" where
  "classifyGesture ls =
     (if avgFingerDist ls < 0.23 then FIST
      else if distIndex ls > 0.35 \<and> distMiddle ls > 0.35
              \<and> distRing ls < 0.25 \<and> distPinky ls < 0.25 then YEAH
      else if pinchDist ls < 0.08 then PINCH
      else if avgFingerDist ls > 0.38 then OPEN_PALM
      else NONE)"

text \<open>
  The value handed to \<open>onGestureUpdate\<close> for one frame. The argument is
  \<open>results.landmarks\<close>, one landmark list per detected hand; \<open>None\<close> stands for a
  missing \<open>results\<close> or \<open>results.landmarks\<close>. Only the first hand is looked at.
\<close>

definition poseSummary :: "landmark list list option \<Rightarrow> GestureState" where
  "poseSummary res =
     (case res of
        None \<Rightarrow> \<lparr>gx = 0, gy = 0, handSize = 0, isDetected = False, gesture = NONE\<rparr>
      | Some [] \<Rightarrow> \<lparr>gx = 0, gy = 0, handSize = 0, isDetected = False, gesture = NONE\<rparr>
      | Some (landmarks # others) \<Rightarrow>
          (if length landmarks \<ge> 21 then
             \<lparr>gx = (lm_x (middleMCP landmarks) - 0.5) * (- 2),
              gy = (lm_y (middleMCP landmarks) - 0.5) * 2,
              handSize = hypot (lm_x (middleMCP landmarks) - lm_x (wrist landmarks))
                               (lm_y (middleMCP landmarks) - lm_y (wrist landmarks)),
              isDetected = True,
              gesture = classifyGesture landmarks\<rparr>
           else \<lparr>gx = 0, gy = 0, handSize = 0, isDetected = False, gesture = NONE\<rparr>))"

text \<open>
  One run of \<open>predictWebcam\<close> once video, canvas, stream and landmarker exist:
  \<open>detectForVideo\<close> either throws, and the frame ends without calling
  \<open>onGestureUpdate\<close>, or returns, and the pose summary is passed on.
\<close>

datatype detection = Throws | Returns "landmark list list option"

definition predictWebcam :: "detection \<Rightarrow> GestureState option" where
  "predictWebcam d = (case d of Throws \<Rightarrow> None | Returns res \<Rightarrow> Some (poseSummary res))"

section \<open>Mode state machine (\<open>App\<close>)\<close>

text \<open>\<open>types.ts\<close>: \<open>interface UploadedImage\<close>; \<open>name\<close> is optional.\<close>

record UploadedImage =
  img_id :: string
  img_url :: string
  img_position :: "real \<times> real \<times> real"
  img_name :: "string option"

text \<open>
  The state of the \<open>App\<close> component that the gesture and upload handlers read and
  write: the \<open>useState\<close> cells \<open>mode\<close>, \<open>focusId\<close>, \<open>gestureState\<close>, \<open>images\<close>,
  \<open>editingId\<close>, \<open>dialogPos\<close> and the refs \<open>nameRef\<close> and \<open>lastGestureSwitchRef\<close>.
  A \<open>string | null\<close> is a \<open>string option\<close>.
\<close>

record AppState =
  mode :: AppMode
  focusId :: "string option"
  gestureState :: GestureState
  images :: "UploadedImage list"
  editingId :: "string option"
  dialogPos :: "real \<times> real"
  nameRef :: string
  lastGestureSwitchRef :: int

text \<open>The initial values given to \<open>useState\<close> and \<open>useRef\<close>.\<close>

definition initialApp :: AppState where
  "initialApp =
     \<lparr>mode = TREE, focusId = None,
      gestureState = \<lparr>gx = 0, gy = 0, handSize = 0, isDetected = False, gesture = NONE\<rparr>,
      images = [], editingId = None, dialogPos = (0, 0), nameRef = [],
      lastGestureSwitchRef = 0\<rparr>"

text \<open>
  JavaScript truthiness of a \<open>string | null\<close>, as tested by \<open>if (editingId)\<close>:
  \<open>null\<close> and the empty string are falsy.
\<close>

definition truthy :: "string option \<Rightarrow> bool" where
  "truthy v = (case v of None \<Rightarrow> False | Some s \<Rightarrow> s \<noteq> [])"

text \<open>Reading \<open>.id\<close> of \<open>undefined\<close> throws a \<open>TypeError\<close>.\<close>

datatype error = TypeError

text \<open>
  \<open>handleGestureUpdate(state)\<close>. \<open>now\<close> is the value of \<open>Date.now()\<close> and \<open>rnd\<close> the
  value \<open>Math.random()\<close> returns if it is called, which happens only in the \<open>PINCH\<close>
  branch. \<open>images[randomIdx]\<close> outside the array is \<open>undefined\<close>, whose \<open>.id\<close> throws.
  \<open>randomIndex\<close> is \<open>Math.floor(Math.random() * images.length)\<close>.
\<close>

definition randomIndex :: "real \<Rightarrow> nat \<Rightarrow> int" where
  "randomIndex rnd len = \<lfloor>rnd * real len\<rfloor>"

definition handleGestureUpdate ::
    "AppState \<Rightarrow> GestureState \<Rightarrow> int \<Rightarrow> real \<Rightarrow> error + AppState" where
  "handleGestureUpdate app state now rnd =
     (if truthy (editingId app) then Inr app
      else
        let app1 = app\<lparr>gestureState := state\<rparr> in
        if now - lastGestureSwitchRef app < 1000 then Inr app1
        else if gesture state = FIST then
          (if mode app \<noteq> TREE
           then Inr (app1\<lparr>mode := TREE, focusId := None, lastGestureSwitchRef := now\<rparr>)
           else Inr app1)
        else if gesture state = OPEN_PALM then
          (if mode app \<noteq> SCATTER
           then Inr (app1\<lparr>mode := SCATTER, focusId := None, lastGestureSwitchRef := now\<rparr>)
           else Inr app1)
        else if gesture state = PINCH then
          (if length (images app) > 0 then
             (if mode app \<noteq> FOCUS then
                let randomIdx = randomIndex rnd (length (images app)) in
                if 0 \<le> randomIdx \<and> randomIdx < int (length (images app))
                then Inr (app1\<lparr>focusId := Some (img_id (images app ! nat randomIdx)),
                                mode := FOCUS, lastGestureSwitchRef := now\<rparr>)
                else Inl TypeError
              else Inr app1)
           else Inr app1)
        else if gesture state = YEAH then
          (if mode app \<noteq> NEW_YEAR
           then Inr (app1\<lparr>mode := NEW_YEAR, focusId := None, lastGestureSwitchRef := now\<rparr>)
           else Inr app1)
        else Inr app1)"

text \<open>
  A stream of gesture samples, each with the clock reading and the random number of its
  call, handled in order; an exception ends the run.
\<close>

fun handleGestures :: "AppState \<Rightarrow> (GestureState \<times> int \<times> real) list \<Rightarrow> error + AppState" where
  "handleGestures app [] = Inr app"
| "handleGestures app ((state, now, rnd) # rest) =
     (case handleGestureUpdate app state now rnd of
        Inl e \<Rightarrow> Inl e
      | Inr app' \<Rightarrow> handleGestures app' rest)"

text \<open>\<open>generateTreePosition()\<close>; \<open>r1\<close>, \<open>r2\<close>, \<open>r3\<close> are its three \<open>Math.random()\<close> draws.\<close>

definition generateTreePosition :: "real \<Rightarrow> real \<Rightarrow> real \<Rightarrow> real \<times> real \<times> real" where
  "generateTreePosition r1 r2 r3 =
     (let height = 14;
          maxRadius = 5.5;
          y = r1 * height;
          normY = y / height;
          currentRadius = maxRadius * (1 - normY);
          angle = r2 * pi * 2;
          r = currentRadius * (0.6 + r3 * 0.35);
          x = cos angle * r;
          z = sin angle * r;
          finalY = y - height / 2
      in (x, finalY, z))"

text \<open>
  \<open>handleFileUpload(event)\<close>. \<open>files\<close> is \<open>event.target.files\<close> (a file is known by
  its name), \<open>url\<close> the result of \<open>URL.createObjectURL\<close>, \<open>newId\<close> that of \<open>uuidv4()\<close>,
  \<open>w\<close> and \<open>h\<close> are \<open>window.innerWidth\<close> and \<open>window.innerHeight\<close>.
\<close>

definition handleFileUpload ::
    "AppState \<Rightarrow> string list option \<Rightarrow> string \<Rightarrow> string \<Rightarrow> real \<Rightarrow> real \<Rightarrow> real
       \<Rightarrow> real \<Rightarrow> real \<Rightarrow> AppState" where
  "handleFileUpload app files url newId r1 r2 r3 w h =
     (case files of
        None \<Rightarrow> app
      | Some [] \<Rightarrow> app
      | Some (file # others) \<Rightarrow>
          let newImage = \<lparr>img_id = newId, img_url = url,
                          img_position = generateTreePosition r1 r2 r3,
                          img_name = Some []\<rparr>;
              dialogW = (if w < 768 then 250 else 280);
              dialogH = (if w < 768 then 140 else 160)
          in app\<lparr>images := images app @ [newImage],
                 dialogPos := ((w / 2) - (dialogW / 2),
                               h - dialogH - (if w < 768 then 60 else 120)),
                 editingId := Some newId,
                 nameRef := [],
                 mode := TREE,
                 focusId := None\<rparr>)"

section \<open>Blend engine (\<open>Ornaments\<close>, \<open>StaticTree\<close>, \<open>GoldenSpirals\<close> and their shaders)\<close>

datatype vec3 = Vector3 (vx: real) (vy: real) (vz: real)




text \<open>
  Interpolation functions of the rendering libraries (three.js and GLSL) are used by the
  program and are not part of it; they are written here as the libraries define them:
  \<open>MathUtils.lerp(x, y, t)\<close> is \<open>(1 - t) * x + t * y\<close>; \<open>Vector3.lerpVectors(v1, v2,
  alpha)\<close> sets each component to \<open>v1.x + (v2.x - v1.x) * alpha\<close> and
  \<open>this.lerp(v, alpha)\<close> adds \<open>(v.x - this.x) * alpha\<close> to each component of \<open>this\<close>, both
  in double arithmetic, one rounding per operation; GLSL's \<open>mix(x, y, a)\<close> is
  \<open>x * (1 - a) + y * a\<close> on each component. \<open>Vector3.length()\<close> is the euclidean norm.
  GLSL leaves the precision of its operations to the implementation, so the shaders are
  kept over the reals.
\<close>

definition lerp :: "real \<Rightarrow> real \<Rightarrow> real \<Rightarrow> real" where
  "lerp x y t = (1 - t) * x + t * y"




definition vlength :: "vec3 \<Rightarrow> real" where
  "vlength v = sqrt ((vx v)\<^sup>2 + (vy v)\<^sup>2 + (vz v)\<^sup>2)"

text \<open>
  The weight targets every \<open>useFrame\<close> callback derives from the mode (\<open>ts\<close>/\<open>tn\<close> in
  \<open>Ornaments\<close> and \<open>StaticTree\<close>, \<open>targetScatter\<close>/\<open>targetNY\<close> in \<open>GoldenSpirals\<close>).
\<close>

definition targetScatter :: "AppMode \<Rightarrow> real" where
  "targetScatter m = (if m = SCATTER \<or> m = FOCUS then 1 else 0)"

definition targetNY :: "AppMode \<Rightarrow> real" where
  "targetNY m = (if m = NEW_YEAR then 1 else 0)"

text \<open>
  The weight update of one frame. The pair is \<open>(sRef.current, nRef.current)\<close> in
  \<open>Ornaments\<close> and \<open>(uScatter.value, uNewYear.value)\<close> in \<open>StaticTree\<close> and
  \<open>GoldenSpirals\<close>; all start at 0.
\<close>

definition ornamentsFrame :: "AppMode \<Rightarrow> real \<times> real \<Rightarrow> real \<times> real" where
  "ornamentsFrame m w = (lerp (fst w) (targetScatter m) 0.05, lerp (snd w) (targetNY m) 0.05)"

definition staticTreeFrame :: "AppMode \<Rightarrow> real \<times> real \<Rightarrow> real \<times> real" where
  "staticTreeFrame m u = (lerp (fst u) (targetScatter m) 0.05, lerp (snd u) (targetNY m) 0.05)"

definition goldenSpiralsFrame :: "AppMode \<Rightarrow> real \<times> real \<Rightarrow> real \<times> real" where
  "goldenSpiralsFrame m u = (lerp (fst u) (targetScatter m) 0.05, lerp (snd u) (targetNY m) 0.05)"

text \<open>
  The weights after each of a run of frames; the list gives the mode the component is
  rendered with at each frame, so a mode change is a change between neighbours.
\<close>

fun runFrames :: "(AppMode \<Rightarrow> real \<times> real \<Rightarrow> real \<times> real) \<Rightarrow> AppMode list
                    \<Rightarrow> real \<times> real \<Rightarrow> (real \<times> real) list" where
  "runFrames frame [] w = []"
| "runFrames frame (m # ms) w = frame m w # runFrames frame ms (frame m w)"

text \<open>
  The spec's wording of the easing step, \<open>weight += (target - weight) * alpha\<close>, for
  comparison with \<open>lerp\<close>.
\<close>

definition easeToward :: "real \<Rightarrow> real \<Rightarrow> real \<Rightarrow> real" where
  "easeToward weight target alpha = weight + (target - weight) * alpha"

text \<open>Both weights of a pair lie in the interval [0, 1].\<close>

definition unitWeights :: "real \<times> real \<Rightarrow> bool" where
  "unitWeights w = (0 \<le> fst w \<and> fst w \<le> 1 \<and> 0 \<le> snd w \<and> snd w \<le> 1)"











section \<open>Formation generator: chaos positions\<close>

text \<open>
  The chaos position one loop iteration of \<open>generateTreeData\<close> stores; \<open>ra\<close>, \<open>rb\<close>, \<open>rc\<close>
  are the \<open>Math.random()\<close> draws for \<open>theta\<close>, \<open>phi\<close> and \<open>r\<close>.
\<close>

definition treeDataChaos :: "real \<Rightarrow> real \<Rightarrow> real \<Rightarrow> vec3" where
  "treeDataChaos ra rb rc =
     (let theta = ra * pi * 2;
          phi = arccos (rb * 2 - 1);
          r = 20 + rc * 20
      in Vector3 (r * sin phi * cos theta) (r * sin phi * sin theta) (r * cos phi))"

text \<open>The \<open>chaosPos\<close> one loop iteration of \<open>useOrnamentData\<close> builds.\<close>

definition ornamentDataChaos :: "real \<Rightarrow> real \<Rightarrow> real \<Rightarrow> real \<Rightarrow> vec3" where
  "ornamentDataChaos scatterRadius ra rb rc =
     (let theta = ra * pi * 2;
          phi = arccos (rb * 2 - 1);
          r = scatterRadius + rc * 10
      in Vector3 (r * sin phi * cos theta) (r * sin phi * sin theta) (r * cos phi))"

text \<open>The chaos position one loop iteration of \<open>generateSpiralData\<close> stores.\<close>

definition spiralDataChaos :: "real \<Rightarrow> real \<Rightarrow> real \<Rightarrow> vec3" where
  "spiralDataChaos ra rb rc = Vector3 ((ra - 0.5) * 45) ((rb - 0.5) * 45) ((rc - 0.5) * 45)"

text \<open>
  \<open>Vector3.normalize()\<close> divides by \<open>length() || 1\<close>, and \<open>multiplyScalar\<close> scales each
  component (three.js).
\<close>

definition normalize :: "vec3 \<Rightarrow> vec3" where
  "normalize v =
     (let l = (if vlength v = 0 then 1 else vlength v)
      in Vector3 (vx v / l) (vy v / l) (vz v / l))"

definition multiplyScalar :: "vec3 \<Rightarrow> real \<Rightarrow> vec3" where
  "multiplyScalar v k = Vector3 (vx v * k) (vy v * k) (vz v * k)"

text \<open>
  The \<open>chaosPos\<close> of a \<open>PolaroidPhoto\<close> whose home position is \<open>h\<close>; \<open>ra\<close> and \<open>rb\<close> are
  the two \<open>Math.random()\<close> draws.
\<close>

definition photoChaos :: "vec3 \<Rightarrow> real \<Rightarrow> real \<Rightarrow> vec3" where
  "photoChaos h ra rb =
     (let c = multiplyScalar (normalize h) (15 + ra * 15)
      in Vector3 (vx c) (vy c + (rb - 0.5) * 10) (vz c))"

section \<open>Sample inputs\<close>

text \<open>
  A hand given by its wrist, middle-finger knuckle and five fingertips; the fourteen
  landmarks the program never reads are put at the wrist.
\<close>

definition mkHand ::
    "landmark \<Rightarrow> landmark \<Rightarrow> landmark \<Rightarrow> landmark \<Rightarrow> landmark \<Rightarrow> landmark \<Rightarrow> landmark
       \<Rightarrow> landmark list" where
  "mkHand w mcp thumb index middle ring pinky =
     [w, w, w, w, thumb, w, w, w, index, mcp, w, w, middle, w, w, w, ring, w, w, w, pinky]"

text \<open>
  Five hands with the wrist at the image centre and the thumb tip either far from the
  index tip or 0.01 from it. The four finger distances are: 0.36, 0.36, 0.05, 0.05 (both
  the \<open>FIST\<close> and the \<open>YEAH\<close> rule hold); 0.36, 0.36, 0.2, 0.2 with a pinching thumb
  (\<open>YEAH\<close> and \<open>PINCH\<close> hold); 0.4 four times with a pinching thumb (\<open>PINCH\<close> and
  \<open>OPEN_PALM\<close> hold); 0.4 four times; 0.3 four times.
\<close>

definition fistYeahHand :: "landmark list" where
  "fistYeahHand =
     mkHand (Landmark 0.5 0.5 0) (Landmark 0.5 0.6 0) (Landmark 0.5 0.3 0)
       (Landmark 0.86 0.5 0) (Landmark 0.5 0.86 0) (Landmark 0.55 0.5 0) (Landmark 0.5 0.55 0)"

definition yeahPinchHand :: "landmark list" where
  "yeahPinchHand =
     mkHand (Landmark 0.5 0.5 0) (Landmark 0.5 0.6 0) (Landmark 0.86 0.51 0)
       (Landmark 0.86 0.5 0) (Landmark 0.5 0.86 0) (Landmark 0.7 0.5 0) (Landmark 0.5 0.7 0)"

definition pinchOpenHand :: "landmark list" where
  "pinchOpenHand =
     mkHand (Landmark 0.5 0.5 0) (Landmark 0.5 0.6 0) (Landmark 0.9 0.51 0)
       (Landmark 0.9 0.5 0) (Landmark 0.5 0.9 0) (Landmark 0.1 0.5 0) (Landmark 0.5 0.1 0)"

definition openHand :: "landmark list" where
  "openHand =
     mkHand (Landmark 0.5 0.5 0) (Landmark 0.5 0.6 0) (Landmark 0.5 0.5 0)
       (Landmark 0.9 0.5 0) (Landmark 0.5 0.9 0) (Landmark 0.1 0.5 0) (Landmark 0.5 0.1 0)"

definition relaxedHand :: "landmark list" where
  "relaxedHand =
     mkHand (Landmark 0.5 0.5 0) (Landmark 0.5 0.6 0) (Landmark 0.5 0.5 0)
       (Landmark 0.8 0.5 0) (Landmark 0.5 0.8 0) (Landmark 0.2 0.5 0) (Landmark 0.5 0.2 0)"

text \<open>A hand whose knuckle is 0.3 left of and 0.4 above the wrist at (0.5, 0.9).\<close>

definition tiltedHand :: "landmark list" where
  "tiltedHand =
     mkHand (Landmark 0.5 0.9 0) (Landmark 0.2 0.5 0) (Landmark 0.5 0.5 0)
       (Landmark 0.8 0.5 0) (Landmark 0.5 0.8 0) (Landmark 0.2 0.5 0) (Landmark 0.5 0.2 0)"

text \<open>A gesture sample of a detected hand.\<close>

definition sample :: "Gesture \<Rightarrow> GestureState" where
  "sample g = \<lparr>gx = 0, gy = 0, handSize = 0.2, isDetected = True, gesture = g\<rparr>"

text \<open>A session with two captioned photos, and the same session focused on the first.\<close>

definition twoPhotos :: AppState where
  "twoPhotos =
     initialApp\<lparr>images :=
       [\<lparr>img_id = ''a'', img_url = ''blob:a'', img_position = (1, 2, 3), img_name = Some ''A''\<rparr>,
        \<lparr>img_id = ''b'', img_url = ''blob:b'', img_position = (3, 2, 1), img_name = Some ''B''\<rparr>],
       lastGestureSwitchRef := 5000\<rparr>"

definition focusedOnA :: AppState where
  "focusedOnA = twoPhotos\<lparr>mode := FOCUS, focusId := Some ''a''\<rparr>"


text \<open>A session in \<open>SCATTER\<close> mode whose caption dialog is open.\<close>

definition editingSession :: AppState where
  "editingSession = initialApp\<lparr>mode := SCATTER, editingId := Some ''a''\<rparr>"

section \<open>Facts about the classifier and the normalizer\<close>

lemma hypot_0_right: "hypot a 0 = \<bar>a\<bar>"
  by (simp add: hypot_def)

lemma hypot_0_left: "hypot 0 b = \<bar>b\<bar>"
  by (simp add: hypot_def)

lemma hypot_nonneg: "0 \<le> hypot a b"
  by (simp add: hypot_def)

lemmas hand_simps =
  mkHand_def wrist_def middleMCP_def thumbTip_def indexTip_def middleTip_def ringTip_def
  pinkyTip_def pinchDist_def distIndex_def distMiddle_def distRing_def distPinky_def
  avgFingerDist_def hypot_0_right hypot_0_left

text \<open>
  Claim C8. For every frame the normalizer yields the not-detected summary (all numbers 0,
  gesture \<open>NONE\<close>) when there is no result, no hand, or a first hand of fewer than 21
  landmarks; otherwise the hand is detected, \<open>x = (middleMCP.x - 0.5) * -2\<close>,
  \<open>y = (middleMCP.y - 0.5) * 2\<close>, and \<open>handSize\<close> is the euclidean distance in the image
  plane between landmark 9 and landmark 0.
\<close>

theorem landmark_normalizer:
  "((res = None \<or> res = Some [] \<or> (\<exists>l ls. res = Some (l # ls) \<and> length l < 21))
      \<longrightarrow> poseSummary res
            = \<lparr>gx = 0, gy = 0, handSize = 0, isDetected = False, gesture = NONE\<rparr>)
   \<and> (\<forall>l ls. res = Some (l # ls) \<and> 21 \<le> length l \<longrightarrow>
         isDetected (poseSummary res)
       \<and> gx (poseSummary res) = (lm_x (l ! 9) - 0.5) * (- 2)
       \<and> gy (poseSummary res) = (lm_y (l ! 9) - 0.5) * 2
       \<and> handSize (poseSummary res)
           = sqrt ((lm_x (l ! 9) - lm_x (l ! 0))\<^sup>2 + (lm_y (l ! 9) - lm_y (l ! 0))\<^sup>2))
   \<and> predictWebcam (Returns res) = Some (poseSummary res)"
  by (auto simp: predictWebcam_def poseSummary_def hypot_def middleMCP_def wrist_def)

theorem landmark_normalizer_witness:
  "poseSummary None = \<lparr>gx = 0, gy = 0, handSize = 0, isDetected = False, gesture = NONE\<rparr>
   \<and> poseSummary (Some [])
       = \<lparr>gx = 0, gy = 0, handSize = 0, isDetected = False, gesture = NONE\<rparr>
   \<and> length (take 20 tiltedHand) < 21
   \<and> poseSummary (Some [take 20 tiltedHand])
       = \<lparr>gx = 0, gy = 0, handSize = 0, isDetected = False, gesture = NONE\<rparr>
   \<and> 21 \<le> length tiltedHand
   \<and> isDetected (poseSummary (Some [tiltedHand]))
   \<and> gx (poseSummary (Some [tiltedHand])) = 0.6
   \<and> gy (poseSummary (Some [tiltedHand])) = 0
   \<and> handSize (poseSummary (Some [tiltedHand])) = 0.5"
proof -
  have s: "sqrt ((0.2 - 0.5)\<^sup>2 + (0.5 - 0.9)\<^sup>2) = (0.5 :: real)"
    by (rule real_sqrt_unique) (simp_all add: power2_eq_square)
  have n: "tiltedHand ! 9 = Landmark 0.2 0.5 0" "tiltedHand ! 0 = Landmark 0.5 0.9 0"
    "length tiltedHand = 21"
    by (simp_all add: tiltedHand_def mkHand_def)
  show ?thesis
    using landmark_normalizer [of None] landmark_normalizer [of "Some []"]
      landmark_normalizer [of "Some [take 20 tiltedHand]"]
      landmark_normalizer [of "Some [tiltedHand]"] s n
    by simp
qed

text \<open>
  Claim C4. For a first hand of at least 21 landmarks whose distances meet the \<open>FIST\<close>
  threshold and the \<open>YEAH\<close> thresholds at once the classifier answers \<open>FIST\<close>; in
  general the rules are tried in the order \<open>FIST\<close>, \<open>YEAH\<close>, \<open>PINCH\<close>, \<open>OPEN_PALM\<close>
  and the first that holds decides, \<open>NONE\<close> being the answer when none holds.
\<close>

theorem classifier_priority:
  "21 \<le> length ls \<longrightarrow>
     (avgFingerDist ls < 0.23 \<and> distIndex ls > 0.35 \<and> distMiddle ls > 0.35
        \<and> distRing ls < 0.25 \<and> distPinky ls < 0.25
      \<longrightarrow> gesture (poseSummary (Some (ls # others))) = FIST)
   \<and> (avgFingerDist ls < 0.23 \<longrightarrow> gesture (poseSummary (Some (ls # others))) = FIST)
   \<and> (\<not> avgFingerDist ls < 0.23 \<and> distIndex ls > 0.35 \<and> distMiddle ls > 0.35
        \<and> distRing ls < 0.25 \<and> distPinky ls < 0.25
      \<longrightarrow> gesture (poseSummary (Some (ls # others))) = YEAH)
   \<and> (\<not> avgFingerDist ls < 0.23
        \<and> \<not> (distIndex ls > 0.35 \<and> distMiddle ls > 0.35
              \<and> distRing ls < 0.25 \<and> distPinky ls < 0.25)
        \<and> pinchDist ls < 0.08
      \<longrightarrow> gesture (poseSummary (Some (ls # others))) = PINCH)
   \<and> (\<not> avgFingerDist ls < 0.23
        \<and> \<not> (distIndex ls > 0.35 \<and> distMiddle ls > 0.35
              \<and> distRing ls < 0.25 \<and> distPinky ls < 0.25)
        \<and> \<not> pinchDist ls < 0.08 \<and> avgFingerDist ls > 0.38
      \<longrightarrow> gesture (poseSummary (Some (ls # others))) = OPEN_PALM)
   \<and> (\<not> avgFingerDist ls < 0.23
        \<and> \<not> (distIndex ls > 0.35 \<and> distMiddle ls > 0.35
              \<and> distRing ls < 0.25 \<and> distPinky ls < 0.25)
        \<and> \<not> pinchDist ls < 0.08 \<and> \<not> avgFingerDist ls > 0.38
      \<longrightarrow> gesture (poseSummary (Some (ls # others))) = NONE)"
  by (simp add: poseSummary_def classifyGesture_def)

theorem classifier_priority_witness:
  "21 \<le> length fistYeahHand
   \<and> avgFingerDist fistYeahHand < 0.23
   \<and> distIndex fistYeahHand > 0.35 \<and> distMiddle fistYeahHand > 0.35
   \<and> distRing fistYeahHand < 0.25 \<and> distPinky fistYeahHand < 0.25
   \<and> gesture (poseSummary (Some [fistYeahHand])) = FIST
   \<and> distIndex yeahPinchHand > 0.35 \<and> distMiddle yeahPinchHand > 0.35
   \<and> distRing yeahPinchHand < 0.25 \<and> distPinky yeahPinchHand < 0.25
   \<and> pinchDist yeahPinchHand < 0.08
   \<and> gesture (poseSummary (Some [yeahPinchHand])) = YEAH
   \<and> pinchDist pinchOpenHand < 0.08 \<and> avgFingerDist pinchOpenHand > 0.38
   \<and> gesture (poseSummary (Some [pinchOpenHand])) = PINCH
   \<and> avgFingerDist openHand > 0.38
   \<and> gesture (poseSummary (Some [openHand])) = OPEN_PALM
   \<and> gesture (poseSummary (Some [relaxedHand])) = NONE"
proof -
  have a: "21 \<le> length fistYeahHand" "avgFingerDist fistYeahHand = 0.205"
      "distIndex fistYeahHand = 0.36" "distMiddle fistYeahHand = 0.36"
      "distRing fistYeahHand = 0.05" "distPinky fistYeahHand = 0.05"
    by (simp_all add: fistYeahHand_def hand_simps)
  have b: "21 \<le> length yeahPinchHand" "avgFingerDist yeahPinchHand = 0.28"
      "distIndex yeahPinchHand = 0.36" "distMiddle yeahPinchHand = 0.36"
      "distRing yeahPinchHand = 0.2" "distPinky yeahPinchHand = 0.2"
      "pinchDist yeahPinchHand = 0.01"
    by (simp_all add: yeahPinchHand_def hand_simps)
  have c: "21 \<le> length pinchOpenHand" "avgFingerDist pinchOpenHand = 0.4"
      "distIndex pinchOpenHand = 0.4" "distMiddle pinchOpenHand = 0.4"
      "distRing pinchOpenHand = 0.4" "distPinky pinchOpenHand = 0.4"
      "pinchDist pinchOpenHand = 0.01"
    by (simp_all add: pinchOpenHand_def hand_simps)
  have d: "21 \<le> length openHand" "avgFingerDist openHand = 0.4"
      "distIndex openHand = 0.4" "distMiddle openHand = 0.4"
      "distRing openHand = 0.4" "distPinky openHand = 0.4"
      "pinchDist openHand = 0.4"
    by (simp_all add: openHand_def hand_simps)
  have e: "21 \<le> length relaxedHand" "avgFingerDist relaxedHand = 0.3"
      "distIndex relaxedHand = 0.3" "distMiddle relaxedHand = 0.3"
      "distRing relaxedHand = 0.3" "distPinky relaxedHand = 0.3"
      "pinchDist relaxedHand = 0.3"
    by (simp_all add: relaxedHand_def hand_simps)
  show ?thesis
    using classifier_priority [of fistYeahHand "[]"] classifier_priority [of yeahPinchHand "[]"]
      classifier_priority [of pinchOpenHand "[]"] classifier_priority [of openHand "[]"]
      classifier_priority [of relaxedHand "[]"] a b c d e
    by simp
qed

section \<open>Facts about the mode state machine\<close>

lemma handleGestureUpdate_cases:
  "handleGestureUpdate app state now rnd = Inr app' \<Longrightarrow>
     app' = app \<or> app' = app\<lparr>gestureState := state\<rparr>
     \<or> (1000 \<le> now - lastGestureSwitchRef app \<and> \<not> truthy (editingId app)
         \<and> lastGestureSwitchRef app' = now \<and> mode app' \<noteq> mode app)"
  unfolding handleGestureUpdate_def Let_def
  by (simp split: if_splits) auto

lemma randomIndex_range:
  assumes "0 \<le> rnd" "rnd < 1" "0 < len"
  shows "0 \<le> randomIndex rnd len \<and> randomIndex rnd len < int len"
proof -
  have "0 \<le> rnd * real len" using assms by simp
  moreover have "rnd * real len < real len" using assms by simp
  ultimately show ?thesis unfolding randomIndex_def
    by (simp add: floor_less_iff)
qed

lemma randomIndex_interval:
  assumes "0 < len"
  shows "{r. randomIndex r len = int i} = {real i / real len ..< (real i + 1) / real len}"
proof -
  have "randomIndex r len = int i \<longleftrightarrow> real i / real len \<le> r \<and> r < (real i + 1) / real len"
    for r
    using assms unfolding randomIndex_def
    by (simp add: floor_eq_iff pos_divide_le_eq pos_less_divide_eq)
  then show ?thesis by (intro set_eqI) simp
qed

lemma pinch_in_focus:
  "mode app = FOCUS \<Longrightarrow> gesture state = PINCH \<Longrightarrow>
     handleGestureUpdate app state now rnd
       = Inr (if truthy (editingId app) then app else app\<lparr>gestureState := state\<rparr>)"
  by (simp add: handleGestureUpdate_def Let_def)

lemma repeated_pinch:
  "mode app = FOCUS \<Longrightarrow> \<forall>e \<in> set evs. gesture (fst e) = PINCH \<Longrightarrow>
     \<exists>app'. handleGestures app evs = Inr app' \<and> mode app' = FOCUS
        \<and> focusId app' = focusId app
        \<and> lastGestureSwitchRef app' = lastGestureSwitchRef app"
proof (induction evs arbitrary: app)
  case Nil
  then show ?case by simp
next
  case (Cons e evs)
  obtain state now rnd where e: "e = (state, now, rnd)" by (cases e) auto
  let ?a = "if truthy (editingId app) then app else app\<lparr>gestureState := state\<rparr>"
  have step: "handleGestureUpdate app state now rnd = Inr ?a"
    using Cons.prems e by (simp add: pinch_in_focus)
  have m: "mode ?a = FOCUS" using Cons.prems by simp
  have "\<forall>e \<in> set evs. gesture (fst e) = PINCH" using Cons.prems by simp
  from Cons.IH [OF m this] obtain app' where
    "handleGestures ?a evs = Inr app'" "mode app' = FOCUS" "focusId app' = focusId ?a"
    "lastGestureSwitchRef app' = lastGestureSwitchRef ?a"
    by blast
  then show ?case using e step by simp
qed

text \<open>
  Claim C3. A gesture sample that arrives less than 1000 ms after the recorded switch time
  changes neither mode, focus selection nor the recorded time; the recorded time changes
  only together with the mode, and then becomes the time of the sample. For the stream
  \<open>OPEN_PALM\<close>, \<open>OPEN_PALM\<close>, \<open>FIST\<close> at 0, 200 and 1100 ms after a clock reading \<open>t0\<close>
  that is itself at least 1000 ms past the recorded time (any real clock reading in a fresh
  session, where the recorded time is 0), starting in \<open>TREE\<close> with no dialog open: the
  first sample switches to \<open>SCATTER\<close>, the second changes nothing but the stored gesture
  sample, the third switches to \<open>TREE\<close>.
\<close>

theorem debounce:
  "(now - lastGestureSwitchRef app < 1000 \<longrightarrow>
      (\<exists>app'. handleGestureUpdate app state now rnd = Inr app'
         \<and> mode app' = mode app \<and> focusId app' = focusId app
         \<and> lastGestureSwitchRef app' = lastGestureSwitchRef app))
   \<and> (\<forall>app'. handleGestureUpdate app state now rnd = Inr app'
         \<and> lastGestureSwitchRef app' \<noteq> lastGestureSwitchRef app
        \<longrightarrow> mode app' \<noteq> mode app \<and> lastGestureSwitchRef app' = now
            \<and> 1000 \<le> now - lastGestureSwitchRef app)
   \<and> (\<forall>app'. handleGestureUpdate app state now rnd = Inr app' \<and> mode app' \<noteq> mode app
        \<longrightarrow> lastGestureSwitchRef app' = now)
   \<and> (mode app = TREE \<and> \<not> truthy (editingId app) \<and> 1000 \<le> t0 - lastGestureSwitchRef app
        \<and> gesture g1 = OPEN_PALM \<and> gesture g2 = OPEN_PALM \<and> gesture g3 = FIST
      \<longrightarrow> (\<exists>a1 a2 a3.
             handleGestureUpdate app g1 t0 r1 = Inr a1
           \<and> mode a1 = SCATTER \<and> lastGestureSwitchRef a1 = t0
           \<and> handleGestureUpdate a1 g2 (t0 + 200) r2 = Inr a2
           \<and> a2 = a1\<lparr>gestureState := g2\<rparr>
           \<and> handleGestureUpdate a2 g3 (t0 + 1100) r3 = Inr a3
           \<and> mode a3 = TREE \<and> lastGestureSwitchRef a3 = t0 + 1100
           \<and> handleGestures app [(g1, t0, r1), (g2, t0 + 200, r2), (g3, t0 + 1100, r3)]
               = Inr a3))"
proof (intro conjI allI impI)
  assume "now - lastGestureSwitchRef app < 1000"
  then show "\<exists>app'. handleGestureUpdate app state now rnd = Inr app'
         \<and> mode app' = mode app \<and> focusId app' = focusId app
         \<and> lastGestureSwitchRef app' = lastGestureSwitchRef app"
    by (simp add: handleGestureUpdate_def Let_def)
next
  fix app'
  assume a: "handleGestureUpdate app state now rnd = Inr app'
         \<and> lastGestureSwitchRef app' \<noteq> lastGestureSwitchRef app"
  from a handleGestureUpdate_cases [of app state now rnd app']
  have "1000 \<le> now - lastGestureSwitchRef app \<and> lastGestureSwitchRef app' = now
        \<and> mode app' \<noteq> mode app"
    by auto
  then show "mode app' \<noteq> mode app" "lastGestureSwitchRef app' = now"
      "1000 \<le> now - lastGestureSwitchRef app"
    by simp_all
next
  fix app'
  assume a: "handleGestureUpdate app state now rnd = Inr app' \<and> mode app' \<noteq> mode app"
  from a handleGestureUpdate_cases [of app state now rnd app']
  show "lastGestureSwitchRef app' = now"
    by auto
next
  assume "mode app = TREE \<and> \<not> truthy (editingId app) \<and> 1000 \<le> t0 - lastGestureSwitchRef app
        \<and> gesture g1 = OPEN_PALM \<and> gesture g2 = OPEN_PALM \<and> gesture g3 = FIST"
  then show "\<exists>a1 a2 a3.
             handleGestureUpdate app g1 t0 r1 = Inr a1
           \<and> mode a1 = SCATTER \<and> lastGestureSwitchRef a1 = t0
           \<and> handleGestureUpdate a1 g2 (t0 + 200) r2 = Inr a2
           \<and> a2 = a1\<lparr>gestureState := g2\<rparr>
           \<and> handleGestureUpdate a2 g3 (t0 + 1100) r3 = Inr a3
           \<and> mode a3 = TREE \<and> lastGestureSwitchRef a3 = t0 + 1100
           \<and> handleGestures app [(g1, t0, r1), (g2, t0 + 200, r2), (g3, t0 + 1100, r3)]
               = Inr a3"
    by (simp add: handleGestureUpdate_def Let_def)
qed

theorem debounce_witness:
  "5999 - lastGestureSwitchRef twoPhotos < 1000
   \<and> handleGestureUpdate twoPhotos (sample YEAH) 5999 0
       = Inr (twoPhotos\<lparr>gestureState := sample YEAH\<rparr>)
   \<and> handleGestureUpdate twoPhotos (sample YEAH) 6000 0
       = Inr (twoPhotos\<lparr>gestureState := sample YEAH, mode := NEW_YEAR,
                        lastGestureSwitchRef := 6000\<rparr>)
   \<and> mode initialApp = TREE \<and> \<not> truthy (editingId initialApp)
   \<and> 1000 \<le> 1700000000000 - lastGestureSwitchRef initialApp
   \<and> handleGestureUpdate initialApp (sample OPEN_PALM) 1700000000000 0
       = Inr (initialApp\<lparr>gestureState := sample OPEN_PALM, mode := SCATTER,
                         lastGestureSwitchRef := 1700000000000\<rparr>)
   \<and> handleGestures initialApp
        [(sample OPEN_PALM, 1700000000000, 0), (sample OPEN_PALM, 1700000000200, 0),
         (sample FIST, 1700000001100, 0)]
      = Inr (initialApp\<lparr>gestureState := sample FIST, mode := TREE,
                        lastGestureSwitchRef := 1700000001100\<rparr>)"
  using debounce [of 5999 twoPhotos "sample YEAH" 0
                     1700000000000 "sample OPEN_PALM" "sample OPEN_PALM" "sample FIST" 0 0 0]
        debounce [of 6000 initialApp "sample YEAH" 0
                     1700000000000 "sample OPEN_PALM" "sample OPEN_PALM" "sample FIST" 0 0 0]
  by (simp add: handleGestureUpdate_def Let_def initialApp_def twoPhotos_def sample_def
        truthy_def)

text \<open>
  The recorded switch time starts at 0 and is compared with the absolute clock, so the
  debounce window also covers clock readings below 1000: there, and only there, a fresh
  session ignores its first gesture. \<open>Date.now()\<close> is far beyond that.
\<close>

lemma fresh_session_first_gesture:
  "handleGestureUpdate initialApp state now rnd = Inr (initialApp\<lparr>gestureState := state\<rparr>)
     \<longleftrightarrow> now < 1000 \<or> gesture state = NONE \<or> gesture state = FIST
          \<or> gesture state = PINCH"
  by (cases "gesture state")
     (auto simp: handleGestureUpdate_def Let_def initialApp_def truthy_def)

text \<open>
  Claim C5. While the caption dialog is open (\<open>editingId\<close> is set) a gesture sample leaves
  the whole application state as it is, whatever the gesture and the clock reading: mode,
  focus selection and recorded switch time do not change.
\<close>

theorem editing_lock:
  "truthy (editingId app) \<longrightarrow> handleGestureUpdate app state now rnd = Inr app"
  by (simp add: handleGestureUpdate_def)

theorem editing_lock_witness:
  "truthy (editingId editingSession)
   \<and> handleGestureUpdate editingSession (sample FIST) 1700000000000 0 = Inr editingSession
   \<and> handleGestureUpdate editingSession (sample YEAH) 1700000000000 0 = Inr editingSession"
  using editing_lock [of editingSession "sample FIST" 1700000000000 0]
    editing_lock [of editingSession "sample YEAH" 1700000000000 0]
  by (simp add: editingSession_def initialApp_def truthy_def)

text \<open>
  Claim C6. A \<open>PINCH\<close> sample brings the mode to \<open>FOCUS\<close> only when there is at least one
  photo. When it is accepted (no dialog, 1000 ms elapsed, a photo exists, mode not yet
  \<open>FOCUS\<close>) the focus becomes the photo at index \<open>floor (rnd * length images)\<close>, which is
  a valid index for \<open>rnd\<close> in [0, 1); each index \<open>i\<close> is chosen exactly for \<open>rnd\<close> in
  \<open>[i / n, (i + 1) / n)\<close>, an interval of length \<open>1 / n\<close>, so a uniform \<open>rnd\<close> gives a
  uniform index. In \<open>FOCUS\<close> mode a \<open>PINCH\<close> sample, and any run of them, keeps the focus
  selection, and its outcome does not depend on the random number.
\<close>

theorem pinch_focus:
  "(\<forall>app'. gesture state = PINCH \<and> handleGestureUpdate app state now rnd = Inr app'
        \<and> mode app \<noteq> FOCUS \<and> mode app' = FOCUS \<longrightarrow> images app \<noteq> [])
   \<and> (gesture state = PINCH \<and> \<not> truthy (editingId app)
        \<and> 1000 \<le> now - lastGestureSwitchRef app \<and> images app \<noteq> [] \<and> mode app \<noteq> FOCUS
        \<and> 0 \<le> rnd \<and> rnd < 1
      \<longrightarrow> (\<exists>i < length (images app). randomIndex rnd (length (images app)) = int i
             \<and> handleGestureUpdate app state now rnd
                = Inr (app\<lparr>gestureState := state, focusId := Some (img_id (images app ! i)),
                           mode := FOCUS, lastGestureSwitchRef := now\<rparr>)))
   \<and> (\<forall>i < length (images app).
         {r. randomIndex r (length (images app)) = int i}
           = {real i / real (length (images app))
               ..< (real i + 1) / real (length (images app))})
   \<and> (gesture state = PINCH \<and> mode app = FOCUS
      \<longrightarrow> (\<exists>app'. handleGestureUpdate app state now rnd = Inr app'
              \<and> mode app' = FOCUS \<and> focusId app' = focusId app
              \<and> lastGestureSwitchRef app' = lastGestureSwitchRef app)
          \<and> (\<forall>rnd'. handleGestureUpdate app state now rnd'
                      = handleGestureUpdate app state now rnd))
   \<and> (mode app = FOCUS \<and> (\<forall>e \<in> set evs. gesture (fst e) = PINCH)
      \<longrightarrow> (\<exists>app'. handleGestures app evs = Inr app' \<and> mode app' = FOCUS
              \<and> focusId app' = focusId app))"
proof (intro conjI allI impI)
  fix app'
  assume "gesture state = PINCH \<and> handleGestureUpdate app state now rnd = Inr app'
        \<and> mode app \<noteq> FOCUS \<and> mode app' = FOCUS"
  then show "images app \<noteq> []"
    by (auto simp: handleGestureUpdate_def Let_def split: if_splits)
next
  assume a: "gesture state = PINCH \<and> \<not> truthy (editingId app)
        \<and> 1000 \<le> now - lastGestureSwitchRef app \<and> images app \<noteq> [] \<and> mode app \<noteq> FOCUS
        \<and> 0 \<le> rnd \<and> rnd < 1"
  then have r: "0 \<le> randomIndex rnd (length (images app))"
      "randomIndex rnd (length (images app)) < int (length (images app))"
    using randomIndex_range [of rnd "length (images app)"] by simp_all
  define i where "i = nat (randomIndex rnd (length (images app)))"
  have i: "i < length (images app)" "randomIndex rnd (length (images app)) = int i"
    using r by (simp_all add: i_def)
  have "handleGestureUpdate app state now rnd
          = Inr (app\<lparr>gestureState := state, focusId := Some (img_id (images app ! i)),
                     mode := FOCUS, lastGestureSwitchRef := now\<rparr>)"
    using a i by (simp add: handleGestureUpdate_def Let_def)
  with i show "\<exists>i < length (images app). randomIndex rnd (length (images app)) = int i
             \<and> handleGestureUpdate app state now rnd
                = Inr (app\<lparr>gestureState := state, focusId := Some (img_id (images app ! i)),
                           mode := FOCUS, lastGestureSwitchRef := now\<rparr>)"
    by blast
next
  fix i assume "i < length (images app)"
  then have "0 < length (images app)" by arith
  then show "{r. randomIndex r (length (images app)) = int i}
           = {real i / real (length (images app))
               ..< (real i + 1) / real (length (images app))}"
    by (rule randomIndex_interval)
next
  assume a: "gesture state = PINCH \<and> mode app = FOCUS"
  then show "\<exists>app'. handleGestureUpdate app state now rnd = Inr app'
              \<and> mode app' = FOCUS \<and> focusId app' = focusId app
              \<and> lastGestureSwitchRef app' = lastGestureSwitchRef app"
    by (simp add: pinch_in_focus)
  fix rnd'
  from a show "handleGestureUpdate app state now rnd' = handleGestureUpdate app state now rnd"
    by (simp add: pinch_in_focus)
next
  assume "mode app = FOCUS \<and> (\<forall>e \<in> set evs. gesture (fst e) = PINCH)"
  then show "\<exists>app'. handleGestures app evs = Inr app' \<and> mode app' = FOCUS
              \<and> focusId app' = focusId app"
    using repeated_pinch [of app evs] by blast
qed

theorem pinch_focus_witness:
  "gesture (sample PINCH) = PINCH \<and> \<not> truthy (editingId twoPhotos)
   \<and> 1000 \<le> 6000 - lastGestureSwitchRef twoPhotos \<and> images twoPhotos \<noteq> []
   \<and> mode twoPhotos \<noteq> FOCUS \<and> (0::real) \<le> 3/4 \<and> (3/4::real) < 1
   \<and> randomIndex (3/4) (length (images twoPhotos)) = 1
   \<and> handleGestureUpdate twoPhotos (sample PINCH) 6000 (3/4)
       = Inr (twoPhotos\<lparr>gestureState := sample PINCH, focusId := Some ''b'', mode := FOCUS,
                        lastGestureSwitchRef := 6000\<rparr>)
   \<and> {r. randomIndex r (length (images twoPhotos)) = 1} = {1/2 ..< 1}
   \<and> mode focusedOnA = FOCUS
   \<and> handleGestureUpdate focusedOnA (sample PINCH) 6000 (3/4)
       = Inr (focusedOnA\<lparr>gestureState := sample PINCH\<rparr>)
   \<and> handleGestures focusedOnA
        [(sample PINCH, 6000, 3/4), (sample PINCH, 7000, 1/4), (sample PINCH, 9000, 3/4)]
       = Inr (focusedOnA\<lparr>gestureState := sample PINCH\<rparr>)"
proof -
  note p = pinch_focus [of "sample PINCH" twoPhotos 6000 "3/4" "[]"]
  note q = pinch_focus [of "sample PINCH" focusedOnA 6000 "3/4"
      "[(sample PINCH, 6000, 3/4), (sample PINCH, 7000, 1/4), (sample PINCH, 9000, 3/4)]"]
  have len: "length (images twoPhotos) = 2"
    by (simp add: twoPhotos_def initialApp_def)
  have idx: "randomIndex (3/4) 2 = 1" "randomIndex (3/4) (Suc (Suc 0)) = 1"
    by (simp_all add: randomIndex_def)
  have "(1::nat) < length (images twoPhotos)" by (simp add: len)
  with p have "{r. randomIndex r (length (images twoPhotos)) = int 1}
      = {real 1 / real (length (images twoPhotos))
          ..< (real 1 + 1) / real (length (images twoPhotos))}"
    by blast
  then have interval: "{r. randomIndex r (length (images twoPhotos)) = 1} = {1/2 ..< 1}"
    by (simp add: len)
  have run: "handleGestures focusedOnA
        [(sample PINCH, 6000, 3/4), (sample PINCH, 7000, 1/4), (sample PINCH, 9000, 3/4)]
       = Inr (focusedOnA\<lparr>gestureState := sample PINCH\<rparr>)"
    using q
    by (simp add: handleGestureUpdate_def Let_def focusedOnA_def twoPhotos_def initialApp_def
          sample_def truthy_def)
  have one: "handleGestureUpdate twoPhotos (sample PINCH) 6000 (3/4)
       = Inr (twoPhotos\<lparr>gestureState := sample PINCH, focusId := Some ''b'', mode := FOCUS,
                        lastGestureSwitchRef := 6000\<rparr>)"
    by (simp add: handleGestureUpdate_def Let_def twoPhotos_def initialApp_def
          sample_def truthy_def idx)
  have two: "handleGestureUpdate focusedOnA (sample PINCH) 6000 (3/4)
       = Inr (focusedOnA\<lparr>gestureState := sample PINCH\<rparr>)"
    by (simp add: handleGestureUpdate_def Let_def focusedOnA_def twoPhotos_def initialApp_def
          sample_def truthy_def)
  show ?thesis
    using interval run one two idx len
    by (simp add: focusedOnA_def twoPhotos_def initialApp_def sample_def truthy_def)
qed

text \<open>
  Claim C7. A \<open>PINCH\<close> sample with no photo uploaded raises nothing and changes neither
  mode, focus selection nor recorded switch time: the state is returned as it was, but for
  the stored gesture sample when no dialog is open.
\<close>

theorem pinch_without_photos:
  "images app = [] \<and> gesture state = PINCH \<longrightarrow>
     handleGestureUpdate app state now rnd
       = Inr (if truthy (editingId app) then app else app\<lparr>gestureState := state\<rparr>)"
  by (simp add: handleGestureUpdate_def Let_def)

theorem pinch_without_photos_witness:
  "images initialApp = [] \<and> gesture (sample PINCH) = PINCH
   \<and> handleGestureUpdate initialApp (sample PINCH) 1700000000000 (1/2)
       = Inr (initialApp\<lparr>gestureState := sample PINCH\<rparr>)"
  using pinch_without_photos [of initialApp "sample PINCH" 1700000000000 "1/2"]
  by (simp add: initialApp_def truthy_def sample_def)

lemma generateTreePosition_y:
  "0 \<le> r1 \<Longrightarrow> r1 < 1 \<Longrightarrow>
     - 7 \<le> fst (snd (generateTreePosition r1 r2 r3))
     \<and> fst (snd (generateTreePosition r1 r2 r3)) < 7"
  by (simp add: generateTreePosition_def Let_def)

lemma hypot_cos_sin: "hypot (cos a * r) (sin a * r) = \<bar>r\<bar>"
proof -
  have "(cos a * r)\<^sup>2 + (sin a * r)\<^sup>2 = ((cos a)\<^sup>2 + (sin a)\<^sup>2) * r\<^sup>2"
    by (simp only: power_mult_distrib distrib_right)
  also have "\<dots> = r\<^sup>2" by simp
  finally show ?thesis by (simp add: hypot_def)
qed

lemma generateTreePosition_eq:
  "generateTreePosition r1 r2 r3 =
     (cos (r2 * pi * 2) * (5.5 * (1 - r1) * (0.6 + r3 * 0.35)), r1 * 14 - 7,
      sin (r2 * pi * 2) * (5.5 * (1 - r1) * (0.6 + r3 * 0.35)))"
  by (simp add: generateTreePosition_def Let_def)

lemma generateTreePosition_radius:
  assumes "0 \<le> r1" "r1 < 1" "0 \<le> r3"
  shows "hypot (fst (generateTreePosition r1 r2 r3)) (snd (snd (generateTreePosition r1 r2 r3)))
      = 5.5 * (1 - r1) * (0.6 + r3 * 0.35)"
proof -
  have "0 \<le> 5.5 * (1 - r1) * (0.6 + r3 * 0.35)" using assms by simp
  then show ?thesis
    by (simp only: generateTreePosition_eq fst_conv snd_conv hypot_cos_sin abs_of_nonneg)
qed

text \<open>
  Claim C10. An upload with at least one file appends a photo whose position is drawn by
  \<open>generateTreePosition\<close> (height in [-7, 7), distance from the axis between 0.6 and 0.95
  of the cone radius at that height), opens the caption dialog for it, sets the mode to
  \<open>TREE\<close> and clears the focus selection, whatever the mode was; the recorded switch
  time is neither changed nor read.
\<close>

theorem upload_resets_mode:
  "files = Some (file # others) \<longrightarrow>
     mode (handleFileUpload app files url newId r1 r2 r3 w h) = TREE
   \<and> focusId (handleFileUpload app files url newId r1 r2 r3 w h) = None
   \<and> lastGestureSwitchRef (handleFileUpload app files url newId r1 r2 r3 w h)
       = lastGestureSwitchRef app
   \<and> images (handleFileUpload app files url newId r1 r2 r3 w h)
       = images app @ [\<lparr>img_id = newId, img_url = url,
                         img_position = generateTreePosition r1 r2 r3, img_name = Some []\<rparr>]
   \<and> editingId (handleFileUpload app files url newId r1 r2 r3 w h) = Some newId
   \<and> (\<forall>t m. handleFileUpload (app\<lparr>lastGestureSwitchRef := t, mode := m\<rparr>)
               files url newId r1 r2 r3 w h
             = (handleFileUpload app files url newId r1 r2 r3 w h)\<lparr>lastGestureSwitchRef := t\<rparr>)
   \<and> (0 \<le> r1 \<and> r1 < 1 \<and> 0 \<le> r3 \<and> r3 < 1 \<longrightarrow>
        - 7 \<le> fst (snd (generateTreePosition r1 r2 r3))
      \<and> fst (snd (generateTreePosition r1 r2 r3)) < 7
      \<and> hypot (fst (generateTreePosition r1 r2 r3)) (snd (snd (generateTreePosition r1 r2 r3)))
          = 5.5 * (1 - r1) * (0.6 + r3 * 0.35))"
proof (intro impI conjI allI)
  assume f: "files = Some (file # others)"
  show "mode (handleFileUpload app files url newId r1 r2 r3 w h) = TREE"
    using f by (simp add: handleFileUpload_def Let_def)
  show "focusId (handleFileUpload app files url newId r1 r2 r3 w h) = None"
    using f by (simp add: handleFileUpload_def Let_def)
  show "lastGestureSwitchRef (handleFileUpload app files url newId r1 r2 r3 w h)
       = lastGestureSwitchRef app"
    using f by (simp add: handleFileUpload_def Let_def)
  show "images (handleFileUpload app files url newId r1 r2 r3 w h)
       = images app @ [\<lparr>img_id = newId, img_url = url,
                         img_position = generateTreePosition r1 r2 r3, img_name = Some []\<rparr>]"
    using f by (simp add: handleFileUpload_def Let_def)
  show "editingId (handleFileUpload app files url newId r1 r2 r3 w h) = Some newId"
    using f by (simp add: handleFileUpload_def Let_def)
  show "handleFileUpload (app\<lparr>lastGestureSwitchRef := t, mode := m\<rparr>)
               files url newId r1 r2 r3 w h
             = (handleFileUpload app files url newId r1 r2 r3 w h)\<lparr>lastGestureSwitchRef := t\<rparr>"
    for t m
    using f by (simp add: handleFileUpload_def Let_def)
next
  assume "files = Some (file # others)" and r: "0 \<le> r1 \<and> r1 < 1 \<and> 0 \<le> r3 \<and> r3 < 1"
  show "- 7 \<le> fst (snd (generateTreePosition r1 r2 r3))"
    using r generateTreePosition_y by blast
  show "fst (snd (generateTreePosition r1 r2 r3)) < 7"
    using r generateTreePosition_y by blast
  show "hypot (fst (generateTreePosition r1 r2 r3)) (snd (snd (generateTreePosition r1 r2 r3)))
          = 5.5 * (1 - r1) * (0.6 + r3 * 0.35)"
    using r generateTreePosition_radius by blast
qed

theorem upload_resets_mode_witness:
  "mode focusedOnA = FOCUS \<and> focusId focusedOnA = Some ''a''
   \<and> lastGestureSwitchRef focusedOnA = 5000
   \<and> mode (handleFileUpload focusedOnA (Some [''c.png'']) ''blob:c'' ''c'' (1/2) 0 0 1280 720)
       = TREE
   \<and> focusId (handleFileUpload focusedOnA (Some [''c.png'']) ''blob:c'' ''c'' (1/2) 0 0 1280 720)
       = None
   \<and> lastGestureSwitchRef
        (handleFileUpload focusedOnA (Some [''c.png'']) ''blob:c'' ''c'' (1/2) 0 0 1280 720)
       = 5000
   \<and> editingId (handleFileUpload focusedOnA (Some [''c.png'']) ''blob:c'' ''c'' (1/2) 0 0 1280 720)
       = Some ''c''
   \<and> length (images
        (handleFileUpload focusedOnA (Some [''c.png'']) ''blob:c'' ''c'' (1/2) 0 0 1280 720))
       = 3
   \<and> generateTreePosition (1/2) 0 0 = (1.65, 0, 0)"
proof -
  note u = upload_resets_mode [of "Some [''c.png'']" "''c.png''" "[]" focusedOnA "''blob:c''"
      "''c''" "1/2" 0 0 1280 720, THEN mp, OF refl]
  note u_mode = u [THEN conjunct1]
    and u_focus = u [THEN conjunct2, THEN conjunct1]
    and u_last = u [THEN conjunct2, THEN conjunct2, THEN conjunct1]
    and u_images = u [THEN conjunct2, THEN conjunct2, THEN conjunct2, THEN conjunct1]
    and u_editing = u [THEN conjunct2, THEN conjunct2, THEN conjunct2, THEN conjunct2,
        THEN conjunct1]
  have g: "generateTreePosition (1/2) 0 0 = (1.65, 0, 0)"
    by (simp add: generateTreePosition_def Let_def)
  have s: "mode focusedOnA = FOCUS" "focusId focusedOnA = Some ''a''"
      "lastGestureSwitchRef focusedOnA = 5000" "length (images focusedOnA) = 2"
    by (simp_all add: focusedOnA_def twoPhotos_def initialApp_def)
  show ?thesis
    by (simp only: u_mode u_focus u_last u_images u_editing g) (simp add: s)
qed

section \<open>Facts about the blend engine\<close>

lemma lerp_easeToward: "lerp weight target alpha = easeToward weight target alpha"
  by (simp add: lerp_def easeToward_def algebra_simps)

lemma easeToward_unit:
  assumes "0 \<le> alpha" "alpha \<le> 1" "0 \<le> target" "target \<le> 1" "0 \<le> weight" "weight \<le> 1"
  shows "0 \<le> easeToward weight target alpha \<and> easeToward weight target alpha \<le> 1"
proof -
  have e: "easeToward weight target alpha = (1 - alpha) * weight + alpha * target"
    by (simp add: easeToward_def algebra_simps)
  have "0 \<le> (1 - alpha) * weight" "0 \<le> alpha * target"
    using assms by simp_all
  moreover have "(1 - alpha) * weight \<le> (1 - alpha) * 1"
    using assms by (intro mult_left_mono) simp_all
  moreover have "alpha * target \<le> alpha * 1"
    using assms by (intro mult_left_mono) simp_all
  ultimately show ?thesis unfolding e by simp
qed

lemma target_unit: "0 \<le> targetScatter m \<and> targetScatter m \<le> 1 \<and> 0 \<le> targetNY m \<and> targetNY m \<le> 1"
  by (simp add: targetScatter_def targetNY_def)

lemma frame_unit:
  assumes "unitWeights w"
  shows "unitWeights (ornamentsFrame m w)" "unitWeights (staticTreeFrame m w)"
    "unitWeights (goldenSpiralsFrame m w)"
  using assms easeToward_unit [of "0.05" "targetScatter m" "fst w"]
    easeToward_unit [of "0.05" "targetNY m" "snd w"] target_unit [of m]
  by (simp_all add: unitWeights_def ornamentsFrame_def staticTreeFrame_def
        goldenSpiralsFrame_def lerp_easeToward)

lemma runFrames_unit:
  assumes step: "\<And>m w. unitWeights w \<Longrightarrow> unitWeights (frame m w)"
  shows "unitWeights w \<Longrightarrow> \<forall>v \<in> set (runFrames frame modes w). unitWeights v"
proof (induction modes arbitrary: w)
  case Nil
  show ?case by simp
next
  case (Cons m ms)
  have next_ok: "unitWeights (frame m w)"
    using Cons.prems by (rule step)
  then have "\<forall>v \<in> set (runFrames frame ms (frame m w)). unitWeights v"
    by (rule Cons.IH)
  with next_ok show ?case by simp
qed

lemma length_runFrames: "length (runFrames frame modes w) = length modes"
  by (induction modes arbitrary: w) auto

text \<open>
  Claim C2. One easing step \<open>weight += (target - weight) * alpha\<close>, which is what
  \<open>lerp\<close> computes, keeps a weight in [0, 1] when the target is 0 or 1 and \<open>alpha\<close>
  is in (0, 1). Hence, from initial weights in [0, 1], the scatter and message weights of
  the ornaments, the foliage and the spirals are in [0, 1] after every frame, for every
  list of per-frame modes of every length.
\<close>

theorem weight_bounds:
  "(0 < alpha \<and> alpha < 1 \<and> (target = 0 \<or> target = 1) \<and> 0 \<le> weight \<and> weight \<le> 1
      \<longrightarrow> lerp weight target alpha = easeToward weight target alpha
          \<and> 0 \<le> easeToward weight target alpha \<and> easeToward weight target alpha \<le> 1)
   \<and> (unitWeights w0
      \<longrightarrow> (\<forall>w \<in> set (runFrames ornamentsFrame modes w0). unitWeights w)
          \<and> (\<forall>w \<in> set (runFrames staticTreeFrame modes w0). unitWeights w)
          \<and> (\<forall>w \<in> set (runFrames goldenSpiralsFrame modes w0). unitWeights w))
   \<and> length (runFrames ornamentsFrame modes w0) = length modes
   \<and> length (runFrames staticTreeFrame modes w0) = length modes
   \<and> length (runFrames goldenSpiralsFrame modes w0) = length modes"
proof (intro conjI impI)
  assume a: "0 < alpha \<and> alpha < 1 \<and> (target = 0 \<or> target = 1) \<and> 0 \<le> weight \<and> weight \<le> 1"
  show "lerp weight target alpha = easeToward weight target alpha"
    by (rule lerp_easeToward)
  from a have "0 \<le> alpha" "alpha \<le> 1" "0 \<le> target" "target \<le> 1" "0 \<le> weight" "weight \<le> 1"
    by auto
  then have "0 \<le> easeToward weight target alpha \<and> easeToward weight target alpha \<le> 1"
    by (rule easeToward_unit)
  then show "0 \<le> easeToward weight target alpha" "easeToward weight target alpha \<le> 1"
    by simp_all
next
  assume u: "unitWeights w0"
  show "\<forall>w \<in> set (runFrames ornamentsFrame modes w0). unitWeights w"
    using u runFrames_unit [of ornamentsFrame w0 modes] frame_unit(1) by blast
  show "\<forall>w \<in> set (runFrames staticTreeFrame modes w0). unitWeights w"
    using u runFrames_unit [of staticTreeFrame w0 modes] frame_unit(2) by blast
  show "\<forall>w \<in> set (runFrames goldenSpiralsFrame modes w0). unitWeights w"
    using u runFrames_unit [of goldenSpiralsFrame w0 modes] frame_unit(3) by blast
qed (simp_all add: length_runFrames)

theorem weight_bounds_witness:
  "(0::real) < 0.05 \<and> (0.05::real) < 1 \<and> easeToward 0 1 0.05 = 0.05
   \<and> unitWeights (0, 0)
   \<and> runFrames ornamentsFrame [SCATTER, NEW_YEAR, TREE] (0, 0)
       = [(0.05, 0), (0.0475, 0.05), (0.045125, 0.0475)]
   \<and> unitWeights (0.05, 0) \<and> unitWeights (0.0475, 0.05) \<and> unitWeights (0.045125, 0.0475)
   \<and> unitWeights (staticTreeFrame SCATTER (0, 0))
   \<and> unitWeights (goldenSpiralsFrame NEW_YEAR (0, 0))"
proof -
  have u: "unitWeights (0, 0)" by (simp add: unitWeights_def)
  have r: "runFrames ornamentsFrame [SCATTER, NEW_YEAR, TREE] (0, 0)
       = [(0.05, 0), (0.0475, 0.05), (0.045125, 0.0475)]"
    by (simp add: ornamentsFrame_def lerp_def targetScatter_def targetNY_def)
  have e: "easeToward 0 1 0.05 = 0.05" by (simp add: easeToward_def)
  note w = weight_bounds [of "0.05" 1 0 "(0, 0)" "[SCATTER, NEW_YEAR, TREE]"]
  from w u have o: "\<forall>w \<in> set (runFrames ornamentsFrame [SCATTER, NEW_YEAR, TREE] (0, 0)).
      unitWeights w"
    by blast
  have o3: "unitWeights (0.05, 0) \<and> unitWeights (0.0475, 0.05)
      \<and> unitWeights (0.045125, 0.0475)"
    using o unfolding r by simp
  from w u have "\<forall>w \<in> set (runFrames staticTreeFrame [SCATTER, NEW_YEAR, TREE] (0, 0)).
      unitWeights w"
    by blast
  then have t: "unitWeights (staticTreeFrame SCATTER (0, 0))"
    by simp
  note w' = weight_bounds [of "0.05" 1 0 "(0, 0)" "[NEW_YEAR]"]
  from w' u have "\<forall>w \<in> set (runFrames goldenSpiralsFrame [NEW_YEAR] (0, 0)). unitWeights w"
    by blast
  then have g: "unitWeights (goldenSpiralsFrame NEW_YEAR (0, 0))"
    by simp
  have "(0::real) < 0.05 \<and> (0.05::real) < 1" by simp
  then show ?thesis using u r e o3 t g by blast
qed

subsection \<open>Rounding to double\<close>











text \<open>
  GLSL's \<open>mix\<close> at weight 1 returns its second operand under every rounding \<open>rd\<close> of the
  three operations that leaves 0 and that operand unchanged, so the equalities below for
  the shaders at weight 1 do not rest on exact arithmetic.
\<close>

lemma mix_one_rounded:
  fixes rd :: "real \<Rightarrow> real"
  assumes "rd 0 = 0" "rd y = y"
  shows "rd (rd (x * rd (1 - 1)) + rd (y * 1)) = y"
  using assms by simp

subsection \<open>Positions\<close>











section \<open>Facts about the chaos formation\<close>

lemma spherical_norm:
  "vlength (Vector3 (r * sin p * cos t) (r * sin p * sin t) (r * cos p)) = \<bar>r\<bar>"
proof -
  have "(r * sin p * cos t)\<^sup>2 + (r * sin p * sin t)\<^sup>2
          = (r * sin p)\<^sup>2 * ((cos t)\<^sup>2 + (sin t)\<^sup>2)"
    by (simp only: power_mult_distrib distrib_left)
  then have xy: "(r * sin p * cos t)\<^sup>2 + (r * sin p * sin t)\<^sup>2 = (r * sin p)\<^sup>2"
    by simp
  have "(r * sin p)\<^sup>2 + (r * cos p)\<^sup>2 = r\<^sup>2 * ((sin p)\<^sup>2 + (cos p)\<^sup>2)"
    by (simp only: power_mult_distrib distrib_left)
  then have "(r * sin p)\<^sup>2 + (r * cos p)\<^sup>2 = r\<^sup>2"
    by simp
  with xy have "(r * sin p * cos t)\<^sup>2 + (r * sin p * sin t)\<^sup>2 + (r * cos p)\<^sup>2 = r\<^sup>2"
    by simp
  then show ?thesis by (simp add: vlength_def)
qed

lemma treeDataChaos_norm: "0 \<le> rc \<Longrightarrow> vlength (treeDataChaos ra rb rc) = 20 + rc * 20"
  by (simp only: treeDataChaos_def Let_def spherical_norm)

lemma ornamentDataChaos_norm:
  "0 \<le> scatterRadius \<Longrightarrow> 0 \<le> rc \<Longrightarrow>
     vlength (ornamentDataChaos scatterRadius ra rb rc) = scatterRadius + rc * 10"
  by (simp only: ornamentDataChaos_def Let_def spherical_norm)

lemma arccos_pos:
  assumes "- 1 \<le> y" "y < 1"
  shows "0 < arccos y"
proof -
  have "0 \<le> arccos y" using assms by (simp add: arccos_lbound)
  moreover have "arccos y \<noteq> 0"
  proof
    assume "arccos y = 0"
    then have "cos (arccos y) = 1" by simp
    moreover have "cos (arccos y) = y" using assms by simp
    ultimately show False using assms by simp
  qed
  ultimately show ?thesis by simp
qed

lemma treeDataChaos_z:
  "0 \<le> rb \<Longrightarrow> rb < 1 \<Longrightarrow> vz (treeDataChaos ra rb rc) = (20 + rc * 20) * (rb * 2 - 1)"
  by (simp add: treeDataChaos_def Let_def)

lemma ornamentDataChaos_z:
  "0 \<le> rb \<Longrightarrow> rb < 1 \<Longrightarrow>
     vz (ornamentDataChaos scatterRadius ra rb rc) = (scatterRadius + rc * 10) * (rb * 2 - 1)"
  by (simp add: ornamentDataChaos_def Let_def)

lemma normalize_scaled_norm:
  assumes "vlength h \<noteq> 0" "0 \<le> k"
  shows "vlength (multiplyScalar (normalize h) k) = k"
proof -
  define l where "l = vlength h"
  have l: "0 < l" using assms(1) by (simp add: l_def vlength_def less_le)
  have sq: "(vx h)\<^sup>2 + (vy h)\<^sup>2 + (vz h)\<^sup>2 = l\<^sup>2"
    by (simp add: l_def vlength_def)
  have "(vx h / l * k)\<^sup>2 + (vy h / l * k)\<^sup>2 + (vz h / l * k)\<^sup>2
          = ((vx h)\<^sup>2 + (vy h)\<^sup>2 + (vz h)\<^sup>2) * (k / l)\<^sup>2"
    by (simp add: power_divide algebra_simps)
  also have "\<dots> = l\<^sup>2 * (k / l)\<^sup>2" by (simp only: sq)
  also have "\<dots> = k\<^sup>2" using l by (simp add: power_divide)
  finally have "sqrt ((vx h / l * k)\<^sup>2 + (vy h / l * k)\<^sup>2 + (vz h / l * k)\<^sup>2) = k"
    using assms(2) by simp
  then show ?thesis
    using assms(1) by (simp add: multiplyScalar_def normalize_def Let_def vlength_def l_def)
qed

lemma photoChaos_eq:
  "photoChaos h ra rb =
     Vector3 (vx (multiplyScalar (normalize h) (15 + ra * 15)))
             (vy (multiplyScalar (normalize h) (15 + ra * 15)) + (rb - 0.5) * 10)
             (vz (multiplyScalar (normalize h) (15 + ra * 15)))"
  by (simp add: photoChaos_def Let_def)

text \<open>
  Claim C9, amended. For the draws \<open>ra\<close>, \<open>rb\<close>, \<open>rc\<close> in [0, 1): a foliage particle and an
  ornament get the chaos position with spherical coordinates \<open>theta = 2 * pi * ra\<close> in
  [0, 2 pi), \<open>phi = arccos (2 * rb - 1)\<close> in (0, pi] and radius \<open>base + rc * extra\<close>, whose
  norm is that radius: in [20, 40) for foliage and in [scatterRadius, scatterRadius + 10)
  for ornaments. A spiral particle instead gets each coordinate as \<open>(rand - 0.5) * 45\<close>, a
  point of the cube [-22.5, 22.5) in each axis. A photo gets the point at distance
  \<open>15 + ra * 15\<close> from the origin in the direction of its home position, moved in \<open>y\<close> by
  \<open>(rb - 0.5) * 10\<close>.
\<close>

theorem chaos_shell:
  "(0 \<le> ra \<and> ra < 1 \<and> 0 \<le> rb \<and> rb < 1 \<and> 0 \<le> rc \<and> rc < 1 \<longrightarrow>
      20 \<le> vlength (treeDataChaos ra rb rc) \<and> vlength (treeDataChaos ra rb rc) < 40
    \<and> vlength (treeDataChaos ra rb rc) = 20 + rc * 20
    \<and> vz (treeDataChaos ra rb rc) = (20 + rc * 20) * (rb * 2 - 1)
    \<and> (0 \<le> scatterRadius \<longrightarrow>
          scatterRadius \<le> vlength (ornamentDataChaos scatterRadius ra rb rc)
        \<and> vlength (ornamentDataChaos scatterRadius ra rb rc) < scatterRadius + 10
        \<and> vlength (ornamentDataChaos scatterRadius ra rb rc) = scatterRadius + rc * 10
        \<and> vz (ornamentDataChaos scatterRadius ra rb rc)
            = (scatterRadius + rc * 10) * (rb * 2 - 1))
    \<and> 0 \<le> ra * pi * 2 \<and> ra * pi * 2 < 2 * pi
    \<and> 0 < arccos (rb * 2 - 1) \<and> arccos (rb * 2 - 1) \<le> pi
    \<and> - 22.5 \<le> vx (spiralDataChaos ra rb rc) \<and> vx (spiralDataChaos ra rb rc) < 22.5
    \<and> - 22.5 \<le> vy (spiralDataChaos ra rb rc) \<and> vy (spiralDataChaos ra rb rc) < 22.5
    \<and> - 22.5 \<le> vz (spiralDataChaos ra rb rc) \<and> vz (spiralDataChaos ra rb rc) < 22.5)
   \<and> treeDataChaos ra rb rc
       = Vector3 ((20 + rc * 20) * sin (arccos (rb * 2 - 1)) * cos (ra * pi * 2))
                 ((20 + rc * 20) * sin (arccos (rb * 2 - 1)) * sin (ra * pi * 2))
                 ((20 + rc * 20) * cos (arccos (rb * 2 - 1)))
   \<and> ornamentDataChaos scatterRadius ra rb rc
       = Vector3 ((scatterRadius + rc * 10) * sin (arccos (rb * 2 - 1)) * cos (ra * pi * 2))
                 ((scatterRadius + rc * 10) * sin (arccos (rb * 2 - 1)) * sin (ra * pi * 2))
                 ((scatterRadius + rc * 10) * cos (arccos (rb * 2 - 1)))
   \<and> photoChaos h ra rb =
       Vector3 (vx (multiplyScalar (normalize h) (15 + ra * 15)))
               (vy (multiplyScalar (normalize h) (15 + ra * 15)) + (rb - 0.5) * 10)
               (vz (multiplyScalar (normalize h) (15 + ra * 15)))
   \<and> (vlength h \<noteq> 0 \<and> 0 \<le> ra \<and> ra < 1
      \<longrightarrow> vlength (multiplyScalar (normalize h) (15 + ra * 15)) = 15 + ra * 15)"
proof (intro conjI impI)
  assume a: "0 \<le> ra \<and> ra < 1 \<and> 0 \<le> rb \<and> rb < 1 \<and> 0 \<le> rc \<and> rc < 1"
  then have rc: "0 \<le> rc" "rc < 1" and rb: "0 \<le> rb" "rb < 1" and ra: "0 \<le> ra" "ra < 1"
    by simp_all
  show t: "vlength (treeDataChaos ra rb rc) = 20 + rc * 20"
    using rc by (simp add: treeDataChaos_norm)
  show "20 \<le> vlength (treeDataChaos ra rb rc)" "vlength (treeDataChaos ra rb rc) < 40"
    using rc by (simp_all add: t)
  show "vz (treeDataChaos ra rb rc) = (20 + rc * 20) * (rb * 2 - 1)"
    using rb by (rule treeDataChaos_z)
  show "0 \<le> ra * pi * 2" using ra by simp
  show "ra * pi * 2 < 2 * pi" using ra by simp
  have "- 1 \<le> rb * 2 - 1" "rb * 2 - 1 < 1" using rb by simp_all
  then show "0 < arccos (rb * 2 - 1)" "arccos (rb * 2 - 1) \<le> pi"
    by (simp_all add: arccos_pos arccos_ubound)
  show "- 22.5 \<le> vx (spiralDataChaos ra rb rc)" "vx (spiralDataChaos ra rb rc) < 22.5"
    "- 22.5 \<le> vy (spiralDataChaos ra rb rc)" "vy (spiralDataChaos ra rb rc) < 22.5"
    "- 22.5 \<le> vz (spiralDataChaos ra rb rc)" "vz (spiralDataChaos ra rb rc) < 22.5"
    using ra rb rc by (simp_all add: spiralDataChaos_def)
  {
    assume s: "0 \<le> scatterRadius"
    show o: "vlength (ornamentDataChaos scatterRadius ra rb rc) = scatterRadius + rc * 10"
      using s rc by (simp add: ornamentDataChaos_norm)
    show "scatterRadius \<le> vlength (ornamentDataChaos scatterRadius ra rb rc)"
      "vlength (ornamentDataChaos scatterRadius ra rb rc) < scatterRadius + 10"
      using rc by (simp_all add: o)
    show "vz (ornamentDataChaos scatterRadius ra rb rc)
            = (scatterRadius + rc * 10) * (rb * 2 - 1)"
      using rb by (rule ornamentDataChaos_z)
  }
next
  show "photoChaos h ra rb =
       Vector3 (vx (multiplyScalar (normalize h) (15 + ra * 15)))
               (vy (multiplyScalar (normalize h) (15 + ra * 15)) + (rb - 0.5) * 10)
               (vz (multiplyScalar (normalize h) (15 + ra * 15)))"
    by (rule photoChaos_eq)
next
  assume "vlength h \<noteq> 0 \<and> 0 \<le> ra \<and> ra < 1"
  then show "vlength (multiplyScalar (normalize h) (15 + ra * 15)) = 15 + ra * 15"
    by (simp add: normalize_scaled_norm)
qed (simp_all add: treeDataChaos_def ornamentDataChaos_def Let_def)

theorem chaos_shell_witness:
  "(0::real) \<le> 0 \<and> (0::real) < 1 \<and> (0::real) \<le> 1/2 \<and> (1/2::real) < 1 \<and> (0::real) \<le> 15
   \<and> treeDataChaos 0 (1/2) (1/2) = Vector3 30 0 0
   \<and> vlength (treeDataChaos 0 (1/2) (1/2)) = 30
   \<and> ornamentDataChaos 15 0 (1/2) (1/2) = Vector3 20 0 0
   \<and> vlength (ornamentDataChaos 15 0 (1/2) (1/2)) = 20
   \<and> - 22.5 \<le> vx (spiralDataChaos 0 (1/2) (1/2))
   \<and> vlength (Vector3 3 0 4) \<noteq> 0
   \<and> vlength (multiplyScalar (normalize (Vector3 3 0 4)) (15 + 0 * 15)) = 15 + 0 * 15"
proof -
  have "vlength (Vector3 3 0 4) = sqrt (5\<^sup>2)"
    by (simp add: vlength_def)
  then have p: "vlength (Vector3 3 0 4) \<noteq> 0"
    by simp
  note c = chaos_shell [of 0 "1/2" "1/2" 15 "Vector3 3 0 4"]
  have h: "(0::real) \<le> 0 \<and> (0::real) < 1 \<and> (0::real) \<le> 1/2 \<and> (1/2::real) < 1
      \<and> (0::real) \<le> 1/2 \<and> (1/2::real) < 1"
    by simp
  have s: "(0::real) \<le> 15" by simp
  from c h have t: "vlength (treeDataChaos 0 (1/2) (1/2)) = 20 + 1/2 * 20" by blast
  from c h s have o: "vlength (ornamentDataChaos 15 0 (1/2) (1/2)) = 15 + 1/2 * 10" by blast
  from c h have x: "- 22.5 \<le> vx (spiralDataChaos 0 (1/2) (1/2))" by blast
  have e: "treeDataChaos 0 (1/2) (1/2) = Vector3 30 0 0"
      "ornamentDataChaos 15 0 (1/2) (1/2) = Vector3 20 0 0"
    by (simp_all add: treeDataChaos_def ornamentDataChaos_def Let_def)
  from t o have "vlength (treeDataChaos 0 (1/2) (1/2)) = 30"
      "vlength (ornamentDataChaos 15 0 (1/2) (1/2)) = 20"
    by simp_all
  moreover from c p h
  have "vlength (multiplyScalar (normalize (Vector3 3 0 4)) (15 + 0 * 15)) = 15 + 0 * 15"
    by blast
  ultimately show ?thesis using e x h s p by blast
qed

text \<open>
  The claim as stated fails for spiral particles: the draws (0.5, 0.5, 0.5) give the
  origin, at distance 0, and changing only the first draw to 0 gives a point at distance
  22.5, so the distance is not a base radius plus an offset set by one draw.
\<close>

theorem chaos_shell_counterexample:
  "spiralDataChaos (1/2) (1/2) (1/2) = Vector3 0 0 0
   \<and> vlength (spiralDataChaos (1/2) (1/2) (1/2)) = 0
   \<and> spiralDataChaos 0 (1/2) (1/2) = Vector3 (- 22.5) 0 0
   \<and> vlength (spiralDataChaos 0 (1/2) (1/2)) = 22.5"
  by (simp add: spiralDataChaos_def vlength_def)

end
